theory Spec2Isabelle
  imports Complex_Main
begin

section \<open>The line follower node of b3rb\_ros\_line\_follower.py\<close>

text \<open>
  Numbers. Python's \<open>float\<close> values are modelled by \<^typ>\<open>real\<close>: every arithmetic
  operation is exact, and the message fields are finite numbers (no NaN, no infinity).
  The one way a float operation of the handlers can raise on finite numbers, a division
  by zero, is a branch of the model.
\<close>

subsection \<open>Constants (lines 31--52)\<close>

definition TURN_MIN :: real where "TURN_MIN = 0.0"
definition TURN_MAX :: real where "TURN_MAX = 1.0"
definition SPEED_MIN :: real where "SPEED_MIN = 0.0"
definition SPEED_MAX :: real where "SPEED_MAX = 1.0"
definition SPEED_25_PERCENT :: real where "SPEED_25_PERCENT = SPEED_MAX / 4"
definition SPEED_50_PERCENT :: real where "SPEED_50_PERCENT = SPEED_25_PERCENT * 2"
definition SPEED_75_PERCENT :: real where "SPEED_75_PERCENT = SPEED_25_PERCENT * 3"

definition THRESHOLD_OBSTACLE_VERTICAL :: real where "THRESHOLD_OBSTACLE_VERTICAL = 1.0"
definition THRESHOLD_OBSTACLE_HORIZONTAL :: real where "THRESHOLD_OBSTACLE_HORIZONTAL = 0.25 / 2"

definition SPEED_MULT_DEFAULT :: real where "SPEED_MULT_DEFAULT = 1.0"

definition MIN_POINTS_FOR_GROUND :: nat where "MIN_POINTS_FOR_GROUND = 10"
definition R_SQUARED_THRESHOLD :: real where "R_SQUARED_THRESHOLD = 0.9"

subsection \<open>Python values\<close>

text \<open>
  A truth value held by a member is a Python \<open>bool\<close> or a \<open>numpy.bool_\<close>. An \<open>if\<close> takes
  the truth of either; the test \<open>v is True\<close> of lines 169--178 is an identity test, and
  holds of the Python object \<open>True\<close> only.
\<close>

datatype py_bool = PyBool bool | NumpyBool bool

fun truth :: "py_bool \<Rightarrow> bool" where
  "truth (PyBool b) = b"
| "truth (NumpyBool b) = b"

definition is_True :: "py_bool \<Rightarrow> bool" where
  "is_True v \<longleftrightarrow> v = PyBool True"

text \<open>
  A number is a Python \<open>float\<close> or a \<open>numpy.float64\<close>. The comparison \<open>a > b\<close> with a
  Python float \<open>b\<close> gives a \<open>bool\<close> for a \<open>float\<close> and a \<open>numpy.bool_\<close> for a
  \<open>numpy.float64\<close>.
\<close>

datatype py_float = PyFloat real | NumpyFloat64 real

fun float_value :: "py_float \<Rightarrow> real" where
  "float_value (PyFloat a) = a"
| "float_value (NumpyFloat64 a) = a"

fun py_gt :: "py_float \<Rightarrow> real \<Rightarrow> py_bool" where
  "py_gt (PyFloat a) b = PyBool (a > b)"
| "py_gt (NumpyFloat64 a) b = NumpyBool (a > b)"

subsection \<open>Messages and the node's state\<close>

text \<open>
  A point of an edge vector; the handler reads only its \<open>x\<close> field (named \<open>pt_x\<close> here,
  so that \<open>x\<close> stays free for variables).
\<close>

record Point =
  pt_x :: real
  pt_y :: real

text \<open>
  \<open>EdgeVectors\<close>: \<open>vector_1\<close> and \<open>vector_2\<close> are arrays of two points, read at the indices
  0 and 1 only; a pair keeps both reads in range.
\<close>

record EdgeVectors =
  image_width :: real
  vector_count :: int
  vector_1 :: "Point \<times> Point"
  vector_2 :: "Point \<times> Point"

record TrafficStatus =
  stop_sign :: bool

record LaserScan =
  ranges :: "real list"
  range_min :: real
  range_max :: real
  angle_increment :: real

text \<open>The \<open>Joy\<close> message published on \<open>/cerebri/in/joy\<close>.\<close>

record Joy =
  buttons :: "int list"
  axes :: "real list"

text \<open>
  The instance members of \<open>LineFollower\<close> that the handlers read and write.
  \<open>obstacle_detected\<close> is assigned the literals \<open>True\<close> and \<open>False\<close> only, and \<open>stop_sign\<close>
  is a \<open>bool\<close> field of a message: both are Python \<open>bool\<close>s, and \<open>is True\<close> is their
  truth. \<open>ramp_detected\<close> is assigned the result of a comparison at line 227.
\<close>

record LineFollower =
  traffic_status :: TrafficStatus
  obstacle_detected :: bool
  ramp_detected :: py_bool
  speed_mult :: real
  prev_turn :: real

text \<open>The members as \<open>__init__\<close> sets them (lines 90--98).\<close>

definition init :: LineFollower where
  "init = \<lparr>traffic_status = \<lparr>stop_sign = False\<rparr>, obstacle_detected = False,
            ramp_detected = PyBool False, speed_mult = SPEED_MULT_DEFAULT, prev_turn = TURN_MIN\<rparr>"

datatype error = ZeroDivisionError

subsection \<open>\<open>rover_move_manual_mode\<close> (lines 111--118)\<close>

text \<open>The message that is published; publishing is modelled by returning it.\<close>

definition rover_move_manual_mode :: "real \<Rightarrow> real \<Rightarrow> Joy" where
  "rover_move_manual_mode speed turn =
     \<lparr>buttons = [1, 0, 0, 0, 0, 0, 0, 1], axes = [0.0, speed, 0.0, turn]\<rparr>"

subsection \<open>\<open>edge_vectors_callback\<close> (lines 131--183)\<close>

text \<open>
  Lines 132--167: the speed and the turn computed from the edge vectors, with the updated
  members. The source tests \<open>vector_count == 1\<close> and then \<open>vector_count == 2\<close> in two
  separate \<open>if\<close> statements; \<open>vector_count\<close> is not assigned in between, so at most one
  body runs. Each division raises \<open>ZeroDivisionError\<close> on a zero divisor, before any
  member is assigned.
\<close>

definition lane_deviation :: "LineFollower \<Rightarrow> EdgeVectors \<Rightarrow> error + (real \<times> real \<times> LineFollower)" where
  "lane_deviation self vectors =
     (let speed = SPEED_MAX;
          turn = TURN_MIN;
          half_width = image_width vectors / 2
      in if vector_count vectors = 1 then
           (let deviation = pt_x (snd (vector_1 vectors)) - pt_x (fst (vector_1 vectors))
            in if image_width vectors = 0 then Inl ZeroDivisionError
               else
                 (let turn = deviation / image_width vectors;
                      self = (if turn < prev_turn self \<and> speed_mult self < 1.5
                              then self\<lparr>speed_mult := speed_mult self + 0.03\<rparr>
                              else if turn \<ge> prev_turn self \<and> speed_mult self > 0.5
                              then self\<lparr>speed_mult := speed_mult self - 0.03\<rparr>
                              else self);
                      speed = (1.5 * TURN_MAX - turn) / (1.5 * TURN_MAX);
                      speed = speed * speed_mult self;
                      self = self\<lparr>prev_turn := turn\<rparr>
                  in Inr (speed, turn, self)))
         else if vector_count vectors = 2 then
           (let middle_x_left = (pt_x (fst (vector_1 vectors)) + pt_x (snd (vector_1 vectors))) / 2;
                middle_x_right = (pt_x (fst (vector_2 vectors)) + pt_x (snd (vector_2 vectors))) / 2;
                middle_x = (middle_x_left + middle_x_right) / 2;
                deviation = half_width - middle_x
            in if half_width = 0 then Inl ZeroDivisionError
               else
                 (let turn = deviation / half_width;
                      self = self\<lparr>speed_mult := (SPEED_MULT_DEFAULT + speed_mult self) / 2\<rparr>;
                      self = self\<lparr>prev_turn := TURN_MIN\<rparr>
                  in Inr (speed, turn, self)))
         else Inr (speed, turn, self))"

text \<open>
  Lines 169--181: the three tests \<open>is True\<close> on the members, in the order of the source;
  each one that holds assigns \<open>speed\<close>.
\<close>

definition speed_override :: "LineFollower \<Rightarrow> real \<Rightarrow> real" where
  "speed_override self speed =
     (let speed = (if stop_sign (traffic_status self) then SPEED_MIN else speed);
          speed = (if is_True (ramp_detected self) then SPEED_50_PERCENT else speed);
          speed = (if obstacle_detected self then SPEED_25_PERCENT else speed)
      in speed)"

text \<open>
  The handler: the members after the call and the message published at line 183, or the
  exception raised (then no member has changed and nothing is published).
\<close>

definition edge_vectors_callback :: "LineFollower \<Rightarrow> EdgeVectors \<Rightarrow> error + (LineFollower \<times> Joy)" where
  "edge_vectors_callback self message =
     (case lane_deviation self message of
        Inl e \<Rightarrow> Inl e
      | Inr (speed, turn, self') \<Rightarrow>
          Inr (self', rover_move_manual_mode (speed_override self' speed) turn))"

text \<open>The speed and the turn carried by a published message: \<open>axes[1]\<close> and \<open>axes[3]\<close>.\<close>

definition joy_speed :: "Joy \<Rightarrow> real" where
  "joy_speed j = axes j ! 1"

definition joy_turn :: "Joy \<Rightarrow> real" where
  "joy_turn j = axes j ! 3"

text \<open>\<open>traffic_status_callback\<close> (lines 193--194).\<close>

definition traffic_status_callback :: "LineFollower \<Rightarrow> TrafficStatus \<Rightarrow> LineFollower" where
  "traffic_status_callback self message = self\<lparr>traffic_status := message\<rparr>"

subsection \<open>Python's \<open>int\<close> and list slices\<close>

text \<open>\<open>int(r)\<close> on a float truncates towards zero.\<close>

definition py_int :: "real \<Rightarrow> int" where
  "py_int r = (if 0 \<le> r then \<lfloor>r\<rfloor> else \<lceil>r\<rceil>)"

text \<open>
  \<open>xs[a:b]\<close>: a negative bound counts from the end, and both bounds are cut to the
  list; an empty range gives the empty list.
\<close>

definition py_slice :: "int \<Rightarrow> int \<Rightarrow> 'a list \<Rightarrow> 'a list" where
  "py_slice a b xs =
     (let n = int (length xs);
          a' = (if a < 0 then max 0 (a + n) else min a n);
          b' = (if b < 0 then max 0 (b + n) else min b n)
      in drop (nat a') (take (nat b') xs))"

subsection \<open>The linear regression of scikit-learn\<close>

text \<open>
  \<open>sklearn.linear_model.LinearRegression\<close> is a library outside the repository. It is
  modelled by what it computes in exact arithmetic. \<open>fit\<close> (with an intercept, the
  default) centres the data and returns the least-squares solution of minimum norm: the
  slope \<open>Sxy / Sxx\<close>, or 0 when all \<open>x\<close> are equal, and the intercept
  \<open>mean y - slope * mean x\<close>. \<open>score\<close> is \<open>r2_score\<close> of the predictions: with \<open>u\<close> the
  residual sum of squares and \<open>v\<close> the total sum of squares, \<open>1 - u / v\<close> when both are
  non-zero, 0 when only \<open>v\<close> is zero, and 1 when \<open>u\<close> is zero. The type of the number
  that \<open>score\<close> returns depends on the release of the library: a \<open>numpy.float64\<close> in the
  older ones, a Python \<open>float\<close> in the newer ones. The release is a parameter of the
  model.
\<close>

datatype sklearn = Returns_float64 | Returns_float

record LinearRegression =
  coef :: real
  intercept :: real

definition mean :: "real list \<Rightarrow> real" where
  "mean xs = sum_list xs / real (length xs)"

definition fit :: "real list \<Rightarrow> real list \<Rightarrow> LinearRegression" where
  "fit xs ys =
     (let mx = mean xs;
          my = mean ys;
          sxx = sum_list (map (\<lambda>x. (x - mx) * (x - mx)) xs);
          sxy = sum_list (map2 (\<lambda>x y. (x - mx) * (y - my)) xs ys);
          c = (if sxx = 0 then 0 else sxy / sxx)
      in \<lparr>coef = c, intercept = my - c * mx\<rparr>)"

definition predict :: "LinearRegression \<Rightarrow> real list \<Rightarrow> real list" where
  "predict reg xs = map (\<lambda>x. coef reg * x + intercept reg) xs"

definition r2_score :: "real list \<Rightarrow> real list \<Rightarrow> real" where
  "r2_score y_true y_pred =
     (let numerator = sum_list (map2 (\<lambda>t p. (t - p) * (t - p)) y_true y_pred);
          denominator = sum_list (map (\<lambda>t. (t - mean y_true) * (t - mean y_true)) y_true)
      in if numerator \<noteq> 0 \<and> denominator \<noteq> 0 then 1 - numerator / denominator
         else if numerator \<noteq> 0 then 0.0
         else 1.0)"

definition score :: "sklearn \<Rightarrow> LinearRegression \<Rightarrow> real list \<Rightarrow> real list \<Rightarrow> py_float" where
  "score lib reg xs ys =
     (case lib of
        Returns_float64 \<Rightarrow> NumpyFloat64 (r2_score ys (predict reg xs))
      | Returns_float \<Rightarrow> PyFloat (r2_score ys (predict reg xs)))"

subsection \<open>\<open>lidar_callback\<close> (lines 205--258)\<close>

text \<open>Line 209.\<close>

definition theta :: real where
  "theta = arctan (4 / 1)"

text \<open>Lines 212--216: the valid readings, and the middle half of them.\<close>

definition preprocess :: "LaserScan \<Rightarrow> real list" where
  "preprocess message =
     (let valid_ranges = filter (\<lambda>r. range_min message \<le> r \<and> r < range_max message) (ranges message);
          length = real (length valid_ranges)
      in py_slice (py_int (length / 4)) (py_int (3 * length / 4)) valid_ranges)"

text \<open>Lines 220--222: the points the line is fitted to.\<close>

definition angles :: "LaserScan \<Rightarrow> real list \<Rightarrow> real list" where
  "angles message rs = map (\<lambda>i. real i * angle_increment message) [0..<length rs]"

definition cart_x :: "LaserScan \<Rightarrow> real list \<Rightarrow> real list" where
  "cart_x message rs = map2 (\<lambda>r a. r * cos a) rs (angles message rs)"

definition cart_y :: "LaserScan \<Rightarrow> real list \<Rightarrow> real list" where
  "cart_y message rs = map2 (\<lambda>r a. r * sin a) rs (angles message rs)"

text \<open>Lines 224--225.\<close>

definition r_squared :: "sklearn \<Rightarrow> LaserScan \<Rightarrow> real list \<Rightarrow> py_float" where
  "r_squared lib message rs =
     (let x = cart_x message rs;
          y = cart_y message rs;
          reg = fit x y
      in score lib reg x y)"

text \<open>Lines 233--236: the three sectors of the kept readings.\<close>

definition front_ranges :: "real list \<Rightarrow> real list" where
  "front_ranges rs =
     (let length = real (length rs)
      in py_slice (py_int (length * theta / pi)) (py_int (length * (pi - theta) / pi)) rs)"

definition side_ranges_right :: "real list \<Rightarrow> real list" where
  "side_ranges_right rs =
     (let length = real (length rs)
      in py_slice 0 (py_int (length * theta / pi)) rs)"

definition side_ranges_left :: "real list \<Rightarrow> real list" where
  "side_ranges_left rs =
     (let length = real (length rs)
      in py_slice (py_int (length * (pi - theta) / pi)) (int (List.length rs)) rs)"

text \<open>
  The loops of lines 240--245 and 251--256: the readings are tested in order, and the
  first one below the threshold ends the handler with \<open>obstacle_detected = True\<close>. The
  result tells whether that happened. (The variable \<open>angle\<close> of the source is assigned in
  the loops and never read.)
\<close>

fun below_threshold :: "real \<Rightarrow> real list \<Rightarrow> bool" where
  "below_threshold t [] = False"
| "below_threshold t (r # rs) = (if r < t then True else below_threshold t rs)"

text \<open>The outer loop of line 249 over the two side sectors.\<close>

fun side_loop :: "real list list \<Rightarrow> bool" where
  "side_loop [] = False"
| "side_loop (side_ranges # rest) =
     (if below_threshold THRESHOLD_OBSTACLE_HORIZONTAL side_ranges then True
      else side_loop rest)"

text \<open>The handler, with the release of scikit-learn in use: the members after the call.\<close>

definition lidar_callback :: "sklearn \<Rightarrow> LineFollower \<Rightarrow> LaserScan \<Rightarrow> LineFollower" where
  "lidar_callback lib self message =
     (let ranges = preprocess message;
          self = (if length ranges \<ge> MIN_POINTS_FOR_GROUND
                  then self\<lparr>ramp_detected :=
                              py_gt (r_squared lib message ranges) R_SQUARED_THRESHOLD\<rparr>
                  else self\<lparr>ramp_detected := PyBool False\<rparr>);
          self = self\<lparr>obstacle_detected := False\<rparr>
      in if below_threshold THRESHOLD_OBSTACLE_VERTICAL (front_ranges ranges)
         then self\<lparr>obstacle_detected := True\<rparr>
         else if side_loop [rev (side_ranges_left ranges), side_ranges_right ranges]
         then self\<lparr>obstacle_detected := True\<rparr>
         else self\<lparr>obstacle_detected := False\<rparr>)"

subsection \<open>The event loop\<close>

text \<open>
  \<open>rclpy.spin\<close> (line 266) hands the messages to the three handlers one at a time. An
  exception of a handler ends \<open>spin\<close>: no later message is handled, and the members are
  as the failing handler found them.
\<close>

datatype event =
  EdgeVectorsMsg EdgeVectors
| TrafficStatusMsg TrafficStatus
| LaserScanMsg LaserScan

fun dispatch :: "sklearn \<Rightarrow> LineFollower \<Rightarrow> event \<Rightarrow> error + LineFollower" where
  "dispatch lib self (EdgeVectorsMsg m) = map_sum id fst (edge_vectors_callback self m)"
| "dispatch lib self (TrafficStatusMsg m) = Inr (traffic_status_callback self m)"
| "dispatch lib self (LaserScanMsg m) = Inr (lidar_callback lib self m)"

fun spin :: "sklearn \<Rightarrow> LineFollower \<Rightarrow> event list \<Rightarrow> LineFollower" where
  "spin lib self [] = self"
| "spin lib self (e # es) =
     (case dispatch lib self e of Inl err \<Rightarrow> self | Inr self' \<Rightarrow> spin lib self' es)"

text \<open>The range that the multiplier keeps: one step of 0.03 beyond each guard.\<close>

definition mult_ok :: "LineFollower \<Rightarrow> bool" where
  "mult_ok self \<longleftrightarrow> 0.47 \<le> speed_mult self \<and> speed_mult self \<le> 1.53"

subsection \<open>The least-squares line over indexed points\<close>

text \<open>
  The words of the specification, for comparison with the model of the library above:
  for the points \<open>(X i, Y i)\<close> with \<open>i < n\<close>, the least-squares line \<open>y = a * x + b\<close>, its
  sum of squared residuals, the total sum of squares, and the coefficient of
  determination.
\<close>

definition idx_mean :: "nat \<Rightarrow> (nat \<Rightarrow> real) \<Rightarrow> real" where
  "idx_mean n Z = (\<Sum>i<n. Z i) / real n"

definition ols_slope :: "nat \<Rightarrow> (nat \<Rightarrow> real) \<Rightarrow> (nat \<Rightarrow> real) \<Rightarrow> real" where
  "ols_slope n X Y =
     (let mx = idx_mean n X;
          my = idx_mean n Y;
          sxx = (\<Sum>i<n. (X i - mx)\<^sup>2);
          sxy = (\<Sum>i<n. (X i - mx) * (Y i - my))
      in if sxx = 0 then 0 else sxy / sxx)"

definition ols_intercept :: "nat \<Rightarrow> (nat \<Rightarrow> real) \<Rightarrow> (nat \<Rightarrow> real) \<Rightarrow> real" where
  "ols_intercept n X Y = idx_mean n Y - ols_slope n X Y * idx_mean n X"

definition sse :: "nat \<Rightarrow> (nat \<Rightarrow> real) \<Rightarrow> (nat \<Rightarrow> real) \<Rightarrow> real \<Rightarrow> real \<Rightarrow> real" where
  "sse n X Y a b = (\<Sum>i<n. (Y i - (a * X i + b))\<^sup>2)"

definition sst :: "nat \<Rightarrow> (nat \<Rightarrow> real) \<Rightarrow> real" where
  "sst n Y = (\<Sum>i<n. (Y i - idx_mean n Y)\<^sup>2)"

definition determination :: "nat \<Rightarrow> (nat \<Rightarrow> real) \<Rightarrow> (nat \<Rightarrow> real) \<Rightarrow> real" where
  "determination n X Y =
     (let u = sse n X Y (ols_slope n X Y) (ols_intercept n X Y);
          v = sst n Y
      in if v = 0 then 1 else 1 - u / v)"

subsection \<open>Concrete inputs\<close>

text \<open>A message with one edge vector from \<open>(x1, 0)\<close> to \<open>(x2, 0)\<close> in an image of width \<open>w\<close>.\<close>

definition edge1 :: "real \<Rightarrow> real \<Rightarrow> real \<Rightarrow> EdgeVectors" where
  "edge1 w x1 x2 =
     \<lparr>image_width = w, vector_count = 1,
      vector_1 = (\<lparr>pt_x = x1, pt_y = 0\<rparr>, \<lparr>pt_x = x2, pt_y = 0\<rparr>),
      vector_2 = (\<lparr>pt_x = 0, pt_y = 0\<rparr>, \<lparr>pt_x = 0, pt_y = 0\<rparr>)\<rparr>"

text \<open>Two edges in an image of width 100, with the midpoints 30 and 60.\<close>

definition edge2 :: EdgeVectors where
  "edge2 =
     \<lparr>image_width = 100, vector_count = 2,
      vector_1 = (\<lparr>pt_x = 20, pt_y = 0\<rparr>, \<lparr>pt_x = 40, pt_y = 90\<rparr>),
      vector_2 = (\<lparr>pt_x = 70, pt_y = 0\<rparr>, \<lparr>pt_x = 50, pt_y = 90\<rparr>)\<rparr>"

text \<open>The node with a stop sign, a ramp and an obstacle at once.\<close>

definition hazards :: LineFollower where
  "hazards = init\<lparr>traffic_status := \<lparr>stop_sign = True\<rparr>, ramp_detected := PyBool True,
                 obstacle_detected := True\<rparr>"

text \<open>Seventeen single edges that lean more and more to the left.\<close>

definition straightening :: "event list" where
  "straightening = map (\<lambda>k. EdgeVectorsMsg (edge1 100 (real k) 0)) [1..<18]"

text \<open>Seventeen times the same vertical single edge.\<close>

definition holding :: "event list" where
  "holding = replicate 17 (EdgeVectorsMsg (edge1 100 50 50))"

text \<open>Eight valid readings, the fourth one at half a unit.\<close>

definition scan_front :: LaserScan where
  "scan_front =
     \<lparr>ranges = [5, 5, 5, 0.5, 5, 5, 5, 5], range_min = 0.1, range_max = 10,
      angle_increment = 0.01\<rparr>"

text \<open>The same with the half unit one place later, and with a tenth of a unit last.\<close>

definition scan_left :: LaserScan where
  "scan_left =
     \<lparr>ranges = [5, 5, 5, 5, 0.5, 5, 5, 5], range_min = 0.1, range_max = 10,
      angle_increment = 0.01\<rparr>"

definition scan_side :: LaserScan where
  "scan_side =
     \<lparr>ranges = [5, 5, 5, 5, 5, 0.1, 5, 5], range_min = 0.1, range_max = 10,
      angle_increment = 0.01\<rparr>"

text \<open>A message without an edge vector.\<close>

definition no_line :: EdgeVectors where
  "no_line =
     \<lparr>image_width = 100, vector_count = 0,
      vector_1 = (\<lparr>pt_x = 0, pt_y = 0\<rparr>, \<lparr>pt_x = 0, pt_y = 0\<rparr>),
      vector_2 = (\<lparr>pt_x = 0, pt_y = 0\<rparr>, \<lparr>pt_x = 0, pt_y = 0\<rparr>)\<rparr>"

text \<open>Twenty valid readings, all at the angle 0.\<close>

definition scan_flat :: LaserScan where
  "scan_flat =
     \<lparr>ranges = [1, 2, 3, 4, 5, 6, 7, 8, 9, 10, 11, 12, 13, 14, 15, 16, 17, 18, 19, 20],
      range_min = 0.1, range_max = 100, angle_increment = 0\<rparr>"

text \<open>Twenty valid readings of 2, a quarter turn apart.\<close>

definition scan_scatter :: LaserScan where
  "scan_scatter =
     \<lparr>ranges = replicate 20 2, range_min = 0.1, range_max = 100, angle_increment = pi / 2\<rparr>"

text \<open>
  A wall along the line \<open>x + y = 1\<close>, seen from the origin by rays \<open>atan (9 / 40)\<close> apart:
  the cosine and the sine of the angle of ray \<open>i\<close>, the distance of the wall along it,
  and a scan whose ten middle readings are these distances.
\<close>

fun rot :: "nat \<Rightarrow> real \<times> real" where
  "rot 0 = (1, 0)"
| "rot (Suc i) =
     (case rot i of (c, s) \<Rightarrow> (c * (40 / 41) - s * (9 / 41), s * (40 / 41) + c * (9 / 41)))"

definition wall :: "nat \<Rightarrow> real" where
  "wall i = 1 / (fst (rot i) + snd (rot i))"

definition scan_wall :: LaserScan where
  "scan_wall =
     \<lparr>ranges = replicate 5 1 @ map wall [0..<10] @ replicate 5 1,
      range_min = 0.1, range_max = 10, angle_increment = arctan (9 / 40)\<rparr>"

lemmas constants =
  TURN_MIN_def TURN_MAX_def SPEED_MIN_def SPEED_MAX_def SPEED_25_PERCENT_def
  SPEED_50_PERCENT_def SPEED_75_PERCENT_def THRESHOLD_OBSTACLE_VERTICAL_def
  THRESHOLD_OBSTACLE_HORIZONTAL_def SPEED_MULT_DEFAULT_def MIN_POINTS_FOR_GROUND_def
  R_SQUARED_THRESHOLD_def

section \<open>The edge vector handler\<close>

subsection \<open>Auxiliary facts\<close>

text \<open>The first part of the handler neither reads nor writes the three flags.\<close>

lemma lane_deviation_flags:
  assumes "lane_deviation self message = Inr (speed, turn, self')"
  shows "traffic_status self' = traffic_status self"
    and "ramp_detected self' = ramp_detected self"
    and "obstacle_detected self' = obstacle_detected self"
  using assms by (auto simp: lane_deviation_def Let_def split: if_splits)

lemma lane_deviation_frame:
  "lane_deviation (self\<lparr>traffic_status := ts, ramp_detected := b, obstacle_detected := c\<rparr>) message =
     map_sum id
       (\<lambda>(speed, turn, self').
           (speed, turn, self'\<lparr>traffic_status := ts, ramp_detected := b, obstacle_detected := c\<rparr>))
       (lane_deviation self message)"
  by (simp add: lane_deviation_def Let_def)

text \<open>The handler raises exactly on a zero width with one or two vectors.\<close>

lemma lane_deviation_returns:
  "(\<exists>r. lane_deviation self message = Inr r) \<longleftrightarrow>
     \<not> (vector_count message \<in> {1, 2} \<and> image_width message = 0)"
  by (auto simp: lane_deviation_def Let_def)

lemma edge_vectors_callback_returns:
  "(\<exists>r. edge_vectors_callback self message = Inr r) \<longleftrightarrow>
     \<not> (vector_count message \<in> {1, 2} \<and> image_width message = 0)"
proof -
  have "(\<exists>r. edge_vectors_callback self message = Inr r) \<longleftrightarrow>
          (\<exists>r. lane_deviation self message = Inr r)"
    by (auto simp: edge_vectors_callback_def split: sum.splits)
  then show ?thesis by (simp only: lane_deviation_returns)
qed

lemma is_True_simps [simp]:
  "is_True (PyBool b) = b"
  "is_True (NumpyBool b) = False"
  by (simp_all add: is_True_def)

lemma is_True_truth: "is_True v \<Longrightarrow> truth v"
  by (cases v) simp_all

lemma speed_override_order:
  "speed_override self speed =
     (if obstacle_detected self then 0.25
      else if is_True (ramp_detected self) then 0.5
      else if stop_sign (traffic_status self) then 0
      else speed)"
  by (simp add: speed_override_def constants)

lemma joy_of_move [simp]:
  "joy_speed (rover_move_manual_mode speed turn) = speed"
  "joy_turn (rover_move_manual_mode speed turn) = turn"
  by (simp_all add: joy_speed_def joy_turn_def rover_move_manual_mode_def)

text \<open>The handler on a message with one vector and a non-zero width.\<close>

lemma edge1_step:
  "w \<noteq> 0 \<Longrightarrow>
   map_sum id fst (edge_vectors_callback self (edge1 w x1 x2)) =
     Inr (self\<lparr>speed_mult :=
                 (if (x2 - x1) / w < prev_turn self \<and> speed_mult self < 1.5
                  then speed_mult self + 0.03
                  else if \<not> (x2 - x1) / w < prev_turn self \<and> speed_mult self > 0.5
                  then speed_mult self - 0.03
                  else speed_mult self),
               prev_turn := (x2 - x1) / w\<rparr>)"
  by (simp add: edge_vectors_callback_def lane_deviation_def edge1_def Let_def not_less)

text \<open>
  With both end points inside the image, the turn that is published is within \<open>[-1, 1]\<close>.
\<close>

lemma turn_in_range:
  assumes "0 < image_width message"
    and "\<forall>p \<in> {fst (vector_1 message), snd (vector_1 message),
                fst (vector_2 message), snd (vector_2 message)}.
           0 \<le> pt_x p \<and> pt_x p \<le> image_width message"
    and "edge_vectors_callback self message = Inr (self', joy)"
  shows "- 1 \<le> joy_turn joy \<and> joy_turn joy \<le> 1"
  using assms
  by (auto simp: edge_vectors_callback_def lane_deviation_def Let_def constants divide_simps
           split: if_splits)

subsection \<open>The multiplier over a run\<close>

lemma lane_deviation_mult:
  assumes "lane_deviation self message = Inr (speed, turn, self')" and "mult_ok self"
  shows "mult_ok self'"
  using assms
  by (auto simp: lane_deviation_def Let_def constants mult_ok_def split: if_splits)

lemma lidar_callback_mult: "speed_mult (lidar_callback lib self message) = speed_mult self"
  by (simp add: lidar_callback_def Let_def)

lemma dispatch_mult:
  assumes "dispatch lib self e = Inr self'" and "mult_ok self"
  shows "mult_ok self'"
proof (cases e)
  case (EdgeVectorsMsg m)
  with assms(1) obtain speed turn where "lane_deviation self m = Inr (speed, turn, self')"
    by (auto simp: edge_vectors_callback_def split: sum.splits)
  then show ?thesis using assms(2) by (rule lane_deviation_mult)
next
  case (TrafficStatusMsg m)
  with assms show ?thesis by (auto simp: traffic_status_callback_def mult_ok_def)
next
  case (LaserScanMsg m)
  with assms show ?thesis by (auto simp: lidar_callback_mult mult_ok_def)
qed

lemma spin_mult: "mult_ok self \<Longrightarrow> mult_ok (spin lib self es)"
proof (induction es arbitrary: self)
  case Nil
  then show ?case by simp
next
  case (Cons e es)
  show ?case
  proof (cases "dispatch lib self e")
    case (Inl err)
    with Cons.prems show ?thesis by simp
  next
    case (Inr self')
    with Cons.prems have "mult_ok self'" by (auto dest: dispatch_mult)
    with Cons.IH Inr show ?thesis by simp
  qed
qed

subsection \<open>The claims on the edge vector handler\<close>

text \<open>
  C1. The claim: with both end points inside an image of positive width, the turn and
  the speed that are published lie within \<open>[-1, 1]\<close>. The docstring of
  \<open>rover_move_manual_mode\<close> gives the same range for both. The turn does
  (\<open>turn_in_range\<close>); the speed does not: from the initial members, a single edge from
  \<open>x = 60\<close> to \<open>x = 40\<close> in an image of width 100 gives the turn \<open>-0.2\<close>, raises the
  multiplier to 1.03, and the speed \<open>(1.7 / 1.5) * 1.03 = 1751 / 1500\<close> is published.
\<close>

theorem speed_exceeds_one:
  "edge_vectors_callback init (edge1 100 60 40) =
     Inr (init\<lparr>speed_mult := 1.03, prev_turn := - 0.2\<rparr>,
          rover_move_manual_mode (1751 / 1500) (- 0.2)) \<and>
   joy_speed (rover_move_manual_mode (1751 / 1500) (- 0.2)) > 1"
  by (simp add: edge_vectors_callback_def lane_deviation_def edge1_def init_def Let_def
        constants speed_override_order)

text \<open>
  C2, as stated: from the initial members the multiplier never exceeds 1.5 and never
  drops below 0.5. It does both: the guard lets a multiplier of 1.48 take one more
  step up, and one of 0.52 one more step down.
\<close>

theorem speed_mult_leaves_range:
  "speed_mult (spin Returns_float init straightening) = 1.51 \<and>
   speed_mult (spin Returns_float init holding) = 0.49"
  by (simp add: straightening_def holding_def upt_conv_Cons eval_nat_numeral edge1_step
        init_def constants)

text \<open>
  C2, amended: from the initial members, after any sequence of messages to the three
  handlers (with either release of the library), the multiplier is at most 1.53 and at
  least 0.47.
\<close>

theorem speed_mult_bounded:
  "0.47 \<le> speed_mult (spin lib init es) \<and> speed_mult (spin lib init es) \<le> 1.53"
proof -
  have "mult_ok init" by (simp add: mult_ok_def init_def constants)
  then have "mult_ok (spin lib init es)" by (rule spin_mult)
  then show ?thesis by (simp add: mult_ok_def)
qed

text \<open>
  The order of the three tests: the published speed is 0.25 when \<open>obstacle_detected\<close> is
  \<open>True\<close>, else 0.5 when \<open>ramp_detected\<close> is the Python object \<open>True\<close>, else 0 with a stop
  sign, else the speed of the first part of the handler. With an obstacle the two
  earlier tests do not matter.
\<close>

lemma override_order:
  assumes "edge_vectors_callback self message = Inr (self', joy)"
  shows "\<exists>speed turn.
           lane_deviation self message = Inr (speed, turn, self') \<and>
           joy_speed joy =
             (if obstacle_detected self then 0.25
              else if is_True (ramp_detected self) then 0.5
              else if stop_sign (traffic_status self) then 0
              else speed)"
proof -
  from assms obtain speed turn where
    ld: "lane_deviation self message = Inr (speed, turn, self')" and
    j: "joy = rover_move_manual_mode (speed_override self' speed) turn"
    by (auto simp: edge_vectors_callback_def split: sum.splits)
  have "speed_override self' speed =
          (if obstacle_detected self then 0.25
           else if is_True (ramp_detected self) then 0.5
           else if stop_sign (traffic_status self) then 0
           else speed)"
    using lane_deviation_flags[OF ld] by (simp add: speed_override_order)
  with ld j show ?thesis by simp
qed

lemma obstacle_override_last:
  assumes "edge_vectors_callback self message = Inr (self', joy)"
    and "obstacle_detected self"
  shows "joy_speed joy = 0.25"
  using override_order[OF assms(1)] assms(2) by auto

text \<open>
  C4, as stated: for every message with one vector, the published speed is
  \<open>(1.5 - turn) / 1.5\<close> times the updated multiplier. With a stop sign the published
  speed is 0 instead, and with a zero width the handler raises and publishes nothing.
\<close>

theorem single_curve_counterexample:
  "edge_vectors_callback (init\<lparr>traffic_status := \<lparr>stop_sign = True\<rparr>\<rparr>) (edge1 100 0 50) =
     Inr (init\<lparr>traffic_status := \<lparr>stop_sign = True\<rparr>, speed_mult := 0.97, prev_turn := 0.5\<rparr>,
          rover_move_manual_mode 0 0.5) \<and>
   joy_speed (rover_move_manual_mode 0 0.5) \<noteq> (1.5 - 0.5) / 1.5 * 0.97 \<and>
   edge_vectors_callback init (edge1 0 0 50) = Inl ZeroDivisionError"
  by (simp add: edge_vectors_callback_def lane_deviation_def edge1_def init_def Let_def
        constants speed_override_order)

text \<open>
  C4, amended: for every message with one vector and a non-zero width, the turn is
  \<open>(x2 - x1) / image_width\<close>; the multiplier goes up by 0.03 exactly when the turn is
  smaller than \<open>prev_turn\<close> and the multiplier is below 1.5, and down by 0.03 exactly
  when the turn is not smaller and the multiplier is above 0.5; the speed computed before
  the three tests on the flags is \<open>(1.5 - turn) / 1.5\<close> times the updated multiplier, and
  it is the published speed when no flag is set (\<open>ramp_detected\<close> false as a \<open>bool\<close> or as
  a \<open>numpy.bool_\<close>); \<open>prev_turn\<close> becomes the turn.
\<close>

theorem single_curve_update:
  fixes self :: LineFollower and message :: EdgeVectors
  assumes "vector_count message = 1" and "image_width message \<noteq> 0"
  defines "turn \<equiv>
    (pt_x (snd (vector_1 message)) - pt_x (fst (vector_1 message))) / image_width message"
  defines "accelerate \<equiv> turn < prev_turn self \<and> speed_mult self < 1.5"
  defines "brake \<equiv> \<not> turn < prev_turn self \<and> speed_mult self > 0.5"
  defines "mult \<equiv> (if accelerate then speed_mult self + 0.03
                    else if brake then speed_mult self - 0.03
                    else speed_mult self)"
  shows "\<exists>joy.
           edge_vectors_callback self message =
             Inr (self\<lparr>speed_mult := mult, prev_turn := turn\<rparr>, joy) \<and>
           joy_turn joy = turn \<and>
           lane_deviation self message =
             Inr ((1.5 - turn) / 1.5 * mult, turn, self\<lparr>speed_mult := mult, prev_turn := turn\<rparr>) \<and>
           (\<not> stop_sign (traffic_status self) \<and> \<not> truth (ramp_detected self) \<and>
            \<not> obstacle_detected self
              \<longrightarrow> joy_speed joy = (1.5 - turn) / 1.5 * mult) \<and>
           (mult = speed_mult self + 0.03 \<longleftrightarrow> accelerate) \<and>
           (mult = speed_mult self - 0.03 \<longleftrightarrow> brake)"
proof -
  have ld: "lane_deviation self message =
             Inr ((1.5 - turn) / 1.5 * mult, turn, self\<lparr>speed_mult := mult, prev_turn := turn\<rparr>)"
    using assms(1,2)
    by (simp add: lane_deviation_def Let_def constants turn_def mult_def accelerate_def
          brake_def not_less)
  have "(mult = speed_mult self + 0.03 \<longleftrightarrow> accelerate) \<and>
        (mult = speed_mult self - 0.03 \<longleftrightarrow> brake)"
    by (auto simp: mult_def accelerate_def brake_def)
  with ld show ?thesis
    by (auto simp: edge_vectors_callback_def speed_override_order dest: is_True_truth)
qed

theorem single_curve_update_witness:
  "vector_count (edge1 100 60 40) = 1 \<and> image_width (edge1 100 60 40) \<noteq> 0 \<and>
   lane_deviation init (edge1 100 60 40) =
     Inr (1751 / 1500, - 0.2, init\<lparr>speed_mult := 1.03, prev_turn := - 0.2\<rparr>)"
proof -
  have h: "vector_count (edge1 100 60 40) = 1" "image_width (edge1 100 60 40) \<noteq> 0"
    by (simp_all add: edge1_def)
  from single_curve_update[OF h, of init] h show ?thesis
    by (auto simp: edge1_def init_def constants)
qed

text \<open>
  C7. For every message with two vectors and a positive width, the turn is
  \<open>(half_width - m) / half_width\<close>, with \<open>m\<close> the mean of the two midpoints; it is 0
  when \<open>m\<close> is the half width.
\<close>

theorem two_edges_turn:
  fixes self :: LineFollower and message :: EdgeVectors
  assumes "vector_count message = 2" and "0 < image_width message"
  defines "half_width \<equiv> image_width message / 2"
  defines "mid1 \<equiv> (pt_x (fst (vector_1 message)) + pt_x (snd (vector_1 message))) / 2"
  defines "mid2 \<equiv> (pt_x (fst (vector_2 message)) + pt_x (snd (vector_2 message))) / 2"
  shows "\<exists>self' joy.
           edge_vectors_callback self message = Inr (self', joy) \<and>
           joy_turn joy = (half_width - (mid1 + mid2) / 2) / half_width \<and>
           ((mid1 + mid2) / 2 = half_width \<longrightarrow> joy_turn joy = 0)"
  using assms(1,2)
  by (simp add: edge_vectors_callback_def lane_deviation_def Let_def half_width_def mid1_def
        mid2_def)

theorem two_edges_turn_witness:
  "vector_count edge2 = 2 \<and> 0 < image_width edge2 \<and>
   (\<exists>self' joy. edge_vectors_callback init edge2 = Inr (self', joy) \<and> joy_turn joy = 0.1)"
proof -
  have h: "vector_count edge2 = 2" "0 < image_width edge2"
    by (simp_all add: edge2_def)
  from two_edges_turn[OF h, of init] h show ?thesis
    by (simp add: edge2_def)
qed

text \<open>
  C8. The three tests on the flags leave the turn alone: whatever the three flags are,
  the handler publishes the turn that its first part computes.
\<close>

theorem turn_never_overridden:
  assumes "lane_deviation self message = Inr (speed, turn, self')"
  shows "\<exists>self'' joy.
           edge_vectors_callback
             (self\<lparr>traffic_status := \<lparr>stop_sign = a\<rparr>, ramp_detected := b, obstacle_detected := c\<rparr>)
             message = Inr (self'', joy) \<and>
           joy_turn joy = turn"
  using assms by (simp add: edge_vectors_callback_def lane_deviation_frame)

theorem turn_never_overridden_witness:
  "lane_deviation init (edge1 100 60 40) =
     Inr (1751 / 1500, - 0.2, init\<lparr>speed_mult := 1.03, prev_turn := - 0.2\<rparr>) \<and>
   (\<exists>self'' joy. edge_vectors_callback hazards (edge1 100 60 40) = Inr (self'', joy) \<and>
      joy_turn joy = - 0.2)"
proof -
  have ld: "lane_deviation init (edge1 100 60 40) =
     Inr (1751 / 1500, - 0.2, init\<lparr>speed_mult := 1.03, prev_turn := - 0.2\<rparr>)"
    by (simp add: lane_deviation_def edge1_def init_def Let_def constants)
  from turn_never_overridden[OF ld, of True "PyBool True" True] ld show ?thesis
    by (simp add: hazards_def)
qed

section \<open>The least-squares line\<close>

subsection \<open>The normal equations\<close>

lemma idx_mean_sum:
  assumes "0 < n"
  shows "(\<Sum>i<n. Z i) = real n * idx_mean n Z"
  using assms by (simp add: idx_mean_def)

lemma centred_sum:
  assumes "0 < n"
  shows "(\<Sum>i<n. Z i - idx_mean n Z) = 0"
  using idx_mean_sum[OF assms, of Z] by (simp add: sum_subtractf)

lemma residual_centred:
  "Y i - (ols_slope n X Y * X i + ols_intercept n X Y) =
     (Y i - idx_mean n Y) - ols_slope n X Y * (X i - idx_mean n X)"
  by (simp add: ols_intercept_def algebra_simps)

lemma slope_equation:
  "ols_slope n X Y * (\<Sum>i<n. (X i - idx_mean n X)\<^sup>2) =
     (\<Sum>i<n. (X i - idx_mean n X) * (Y i - idx_mean n Y))"
proof (cases "(\<Sum>i<n. (X i - idx_mean n X)\<^sup>2) = 0")
  case True
  then have "\<forall>i \<in> {..<n}. (X i - idx_mean n X)\<^sup>2 = 0"
    by (subst (asm) sum_nonneg_eq_0_iff) simp_all
  then have "(\<Sum>i<n. (X i - idx_mean n X) * (Y i - idx_mean n Y)) = 0"
    by (intro sum.neutral) simp
  with True show ?thesis by simp
next
  case False
  then show ?thesis by (simp add: ols_slope_def Let_def)
qed

lemma residual_sum:
  assumes "0 < n"
  shows "(\<Sum>i<n. Y i - (ols_slope n X Y * X i + ols_intercept n X Y)) = 0"
proof -
  have "(\<Sum>i<n. Y i - (ols_slope n X Y * X i + ols_intercept n X Y)) =
          (\<Sum>i<n. (Y i - idx_mean n Y) - ols_slope n X Y * (X i - idx_mean n X))"
    by (simp only: residual_centred)
  also have "\<dots> = (\<Sum>i<n. Y i - idx_mean n Y) -
                    (\<Sum>i<n. ols_slope n X Y * (X i - idx_mean n X))"
    by (rule sum_subtractf)
  also have "(\<Sum>i<n. ols_slope n X Y * (X i - idx_mean n X)) =
               ols_slope n X Y * (\<Sum>i<n. X i - idx_mean n X)"
    by (rule sum_distrib_left[symmetric])
  finally show ?thesis by (simp add: centred_sum[OF assms])
qed

lemma residual_moment:
  assumes "0 < n"
  shows "(\<Sum>i<n. (Y i - (ols_slope n X Y * X i + ols_intercept n X Y)) * X i) = 0"
proof -
  let ?a = "ols_slope n X Y" and ?mx = "idx_mean n X" and ?my = "idx_mean n Y"
  let ?e = "\<lambda>i. Y i - (?a * X i + ols_intercept n X Y)"
  have prod: "?e i * (X i - ?mx) = (X i - ?mx) * (Y i - ?my) - ?a * (X i - ?mx)\<^sup>2" for i
    unfolding residual_centred by (simp add: power2_eq_square algebra_simps)
  have "(\<Sum>i<n. ?e i * (X i - ?mx)) =
          (\<Sum>i<n. (X i - ?mx) * (Y i - ?my) - ?a * (X i - ?mx)\<^sup>2)"
    by (simp only: prod)
  also have "\<dots> = (\<Sum>i<n. (X i - ?mx) * (Y i - ?my)) - (\<Sum>i<n. ?a * (X i - ?mx)\<^sup>2)"
    by (rule sum_subtractf)
  also have "(\<Sum>i<n. ?a * (X i - ?mx)\<^sup>2) = ?a * (\<Sum>i<n. (X i - ?mx)\<^sup>2)"
    by (rule sum_distrib_left[symmetric])
  finally have centred: "(\<Sum>i<n. ?e i * (X i - ?mx)) = 0"
    by (simp add: slope_equation)
  have "(\<Sum>i<n. ?e i * X i) = (\<Sum>i<n. ?e i * (X i - ?mx) + ?mx * ?e i)"
    by (rule sum.cong) (simp_all add: algebra_simps)
  also have "\<dots> = (\<Sum>i<n. ?e i * (X i - ?mx)) + (\<Sum>i<n. ?mx * ?e i)"
    by (rule sum.distrib)
  also have "(\<Sum>i<n. ?mx * ?e i) = ?mx * (\<Sum>i<n. ?e i)"
    by (rule sum_distrib_left[symmetric])
  finally show ?thesis by (simp add: centred residual_sum[OF assms])
qed

subsection \<open>No line has a smaller sum of squared residuals\<close>

lemma sse_nonneg: "0 \<le> sse n X Y a b"
  by (simp add: sse_def sum_nonneg)

lemma ols_least:
  assumes "0 < n"
  shows "sse n X Y (ols_slope n X Y) (ols_intercept n X Y) \<le> sse n X Y a' b'"
proof -
  let ?a = "ols_slope n X Y" and ?b = "ols_intercept n X Y"
  let ?e = "\<lambda>i. Y i - (?a * X i + ?b)"
  let ?d = "\<lambda>i. (?a - a') * X i + (?b - b')"
  have sq: "(Y i - (a' * X i + b'))\<^sup>2 =
              (?e i)\<^sup>2 + (?d i)\<^sup>2 + (2 * (?a - a') * (?e i * X i) + 2 * (?b - b') * ?e i)" for i
    by (simp add: power2_eq_square algebra_simps)
  have "sse n X Y a' b' =
          (\<Sum>i<n. (?e i)\<^sup>2) + (\<Sum>i<n. (?d i)\<^sup>2) +
          (2 * (?a - a') * (\<Sum>i<n. ?e i * X i) + 2 * (?b - b') * (\<Sum>i<n. ?e i))"
    unfolding sse_def by (simp only: sq sum.distrib sum_distrib_left)
  then have "sse n X Y a' b' = sse n X Y ?a ?b + (\<Sum>i<n. (?d i)\<^sup>2)"
    by (simp add: residual_sum[OF assms] residual_moment[OF assms] sse_def)
  moreover have "0 \<le> (\<Sum>i<n. (?d i)\<^sup>2)" by (simp add: sum_nonneg)
  ultimately show ?thesis by simp
qed

lemma sse_flat: "sse n X Y 0 (idx_mean n Y) = sst n Y"
  by (simp add: sse_def sst_def)

lemma sst_zero:
  assumes "0 < n" and "sst n Y = 0"
  shows "sse n X Y (ols_slope n X Y) (ols_intercept n X Y) = 0"
  using ols_least[OF assms(1), of X Y 0 "idx_mean n Y"] sse_nonneg[of n X Y "ols_slope n X Y" "ols_intercept n X Y"]
  by (simp add: sse_flat assms(2))

lemma sse_on_line:
  assumes "0 < n" and "\<forall>i<n. Y i = a' * X i + b'"
  shows "sse n X Y (ols_slope n X Y) (ols_intercept n X Y) = 0"
proof -
  have "sse n X Y a' b' = 0" using assms(2) by (simp add: sse_def)
  with ols_least[OF assms(1), of X Y a' b'] sse_nonneg[of n X Y "ols_slope n X Y" "ols_intercept n X Y"]
  show ?thesis by simp
qed

lemma determination_on_line:
  assumes "0 < n" and "\<forall>i<n. Y i = a' * X i + b'"
  shows "determination n X Y = 1"
  by (simp add: determination_def Let_def sse_on_line[OF assms])

subsection \<open>The model of the library computes this line\<close>

lemma sum_list_nth_fun:
  assumes "length xs = n" and "\<forall>i<n. xs ! i = X i"
  shows "sum_list (map f xs) = (\<Sum>i<n. f (X i))"
proof -
  have "sum_list (map f xs) = (\<Sum>i = 0..<length (map f xs). map f xs ! i)"
    by (rule sum_list_sum_nth)
  also have "\<dots> = (\<Sum>i<n. f (X i))"
    using assms by (intro sum.cong) (auto simp: atLeast0LessThan)
  finally show ?thesis .
qed

lemma sum_list_map2_nth_fun:
  assumes "length xs = n" and "length ys = n"
    and "\<forall>i<n. xs ! i = X i" and "\<forall>i<n. ys ! i = Y i"
  shows "sum_list (map2 f xs ys) = (\<Sum>i<n. f (X i) (Y i))"
proof -
  have "sum_list (map2 f xs ys) = (\<Sum>i = 0..<length (map2 f xs ys). map2 f xs ys ! i)"
    by (rule sum_list_sum_nth)
  also have "\<dots> = (\<Sum>i<n. f (X i) (Y i))"
    using assms by (intro sum.cong) (auto simp: atLeast0LessThan)
  finally show ?thesis .
qed

lemma r2_score_determination:
  assumes n: "0 < n" and lx: "length xs = n" and ly: "length ys = n"
    and X: "\<forall>i<n. xs ! i = X i" and Y: "\<forall>i<n. ys ! i = Y i"
  shows "r2_score ys (predict (fit xs ys) xs) = determination n X Y"
proof -
  have mx: "mean xs = idx_mean n X"
    using sum_list_nth_fun[OF lx X, of "\<lambda>x. x"] lx by (simp add: mean_def idx_mean_def)
  have my: "mean ys = idx_mean n Y"
    using sum_list_nth_fun[OF ly Y, of "\<lambda>x. x"] ly by (simp add: mean_def idx_mean_def)
  have sxx: "sum_list (map (\<lambda>x. (x - idx_mean n X) * (x - idx_mean n X)) xs) =
               (\<Sum>i<n. (X i - idx_mean n X)\<^sup>2)"
    by (simp add: sum_list_nth_fun[OF lx X] power2_eq_square)
  have sxy: "sum_list (map2 (\<lambda>x y. (x - idx_mean n X) * (y - idx_mean n Y)) xs ys) =
               (\<Sum>i<n. (X i - idx_mean n X) * (Y i - idx_mean n Y))"
    by (rule sum_list_map2_nth_fun[OF lx ly X Y])
  have c: "coef (fit xs ys) = ols_slope n X Y"
    by (simp add: fit_def Let_def mx my sxx sxy ols_slope_def)
  have i: "intercept (fit xs ys) = ols_intercept n X Y"
    by (simp add: fit_def Let_def mx my sxx sxy ols_slope_def ols_intercept_def)
  have lp: "length (predict (fit xs ys) xs) = n" by (simp add: predict_def lx)
  have P: "\<forall>i<n. predict (fit xs ys) xs ! i = ols_slope n X Y * X i + ols_intercept n X Y"
    using lx X by (simp add: predict_def c i)
  have u: "sum_list (map2 (\<lambda>t p. (t - p) * (t - p)) ys (predict (fit xs ys) xs)) =
             sse n X Y (ols_slope n X Y) (ols_intercept n X Y)"
    by (simp add: sum_list_map2_nth_fun[OF ly lp Y P] sse_def power2_eq_square)
  have v: "sum_list (map (\<lambda>t. (t - idx_mean n Y) * (t - idx_mean n Y)) ys) = sst n Y"
    by (simp add: sum_list_nth_fun[OF ly Y] sst_def power2_eq_square)
  show ?thesis
    using sst_zero[OF n, of Y X]
    by (auto simp: r2_score_def Let_def my u v determination_def)
qed

section \<open>The range scan handler\<close>

subsection \<open>Auxiliary facts\<close>

lemma below_threshold_iff: "below_threshold t rs \<longleftrightarrow> (\<exists>r \<in> set rs. r < t)"
  by (induction rs) auto

lemma side_loop_iff:
  "side_loop rss \<longleftrightarrow> (\<exists>rs \<in> set rss. \<exists>r \<in> set rs. r < THRESHOLD_OBSTACLE_HORIZONTAL)"
  by (induction rss) (auto simp: below_threshold_iff)

lemma truth_py_gt: "truth (py_gt f b) \<longleftrightarrow> float_value f > b"
  by (cases f) simp_all

text \<open>The angle \<open>theta\<close> lies between a quarter and a half of \<open>pi\<close>.\<close>

lemma theta_arctan: "theta = arctan 4"
  by (simp add: theta_def)

lemma theta_bounds: "pi / 4 < theta" "theta < pi / 2"
proof -
  have "arctan 1 < arctan 4" by (simp add: arctan_less_iff)
  then show "pi / 4 < theta" by (simp add: theta_def arctan_one)
  show "theta < pi / 2" using arctan_ubound[of 4] by (simp add: theta_def)
qed

lemma theta_fraction: "1 / 4 < theta / pi" "theta / pi < 1 / 2"
  using theta_bounds pi_gt_zero by (simp_all add: field_simps)

text \<open>A slice between two natural numbers.\<close>

lemma py_slice_nat: "py_slice (int a) (int b) xs = drop a (take b xs)"
proof (cases "b \<le> length xs")
  case True
  then show ?thesis by (cases "a \<le> length xs") (simp_all add: py_slice_def Let_def min_def)
next
  case False
  then show ?thesis by (cases "a \<le> length xs") (simp_all add: py_slice_def Let_def min_def)
qed

text \<open>The two indices that cut a list of \<open>n\<close> readings into the sectors.\<close>

lemma cut_indices:
  fixes n :: nat
  defines "c1 \<equiv> nat \<lfloor>real n * arctan 4 / pi\<rfloor>"
    and "c2 \<equiv> nat \<lfloor>real n * (pi - arctan 4) / pi\<rfloor>"
  shows "py_int (real n * theta / pi) = int c1"
    and "py_int (real n * (pi - theta) / pi) = int c2"
    and "c1 \<le> c2" and "c2 \<le> n"
proof -
  let ?p = "real n * theta / pi" and ?q = "real n * (pi - theta) / pi"
  have q: "?q = real n * (1 - theta / pi)" using pi_gt_zero by (simp add: field_simps)
  have p: "?p = real n * (theta / pi)" by simp
  have p0: "0 \<le> ?p" unfolding p using theta_fraction by (intro mult_nonneg_nonneg) simp_all
  have pq: "?p \<le> ?q" unfolding p q using theta_fraction by (intro mult_left_mono) simp_all
  have qn: "?q \<le> real n" unfolding q using theta_fraction by (intro mult_left_le) simp_all
  have q0: "0 \<le> ?q" using p0 pq by simp
  have c1: "c1 = nat \<lfloor>?p\<rfloor>" and c2: "c2 = nat \<lfloor>?q\<rfloor>"
    by (simp_all only: c1_def c2_def theta_arctan)
  show "py_int ?p = int c1" using p0 by (simp add: py_int_def c1)
  show "py_int ?q = int c2" using q0 by (simp add: py_int_def c2)
  show "c1 \<le> c2" unfolding c1 c2 using pq by (intro nat_mono floor_mono)
  have "\<lfloor>?q\<rfloor> \<le> int n" using qn by (simp add: floor_le_iff)
  then show "c2 \<le> n" unfolding c2 by simp
qed

text \<open>The three sectors are the kept readings, cut at these two indices.\<close>

lemma sectors_explicit:
  fixes rs :: "real list"
  defines "c1 \<equiv> nat \<lfloor>real (length rs) * arctan 4 / pi\<rfloor>"
    and "c2 \<equiv> nat \<lfloor>real (length rs) * (pi - arctan 4) / pi\<rfloor>"
  shows "side_ranges_right rs = take c1 rs"
    and "front_ranges rs = drop c1 (take c2 rs)"
    and "side_ranges_left rs = drop c2 rs"
proof -
  note c = cut_indices[of "length rs", folded c1_def c2_def]
  show "side_ranges_right rs = take c1 rs"
    using py_slice_nat[of 0 c1 rs] by (simp add: side_ranges_right_def c(1))
  show "front_ranges rs = drop c1 (take c2 rs)"
    by (simp add: front_ranges_def c(1,2) py_slice_nat)
  show "side_ranges_left rs = drop c2 rs"
    by (simp add: side_ranges_left_def c(2) py_slice_nat)
qed

lemma slice_below:
  assumes "b \<le> length rs"
  shows "(\<exists>r \<in> set (drop a (take b rs)). r < (t::real)) \<longleftrightarrow> (\<exists>i. a \<le> i \<and> i < b \<and> rs ! i < t)"
proof
  assume "\<exists>r \<in> set (drop a (take b rs)). r < t"
  then obtain j where j: "j < length (drop a (take b rs))" and r: "drop a (take b rs) ! j < t"
    by (auto simp: in_set_conv_nth)
  from j assms have "a + j < b" by simp
  moreover from this assms have "drop a (take b rs) ! j = rs ! (a + j)" by simp
  ultimately show "\<exists>i. a \<le> i \<and> i < b \<and> rs ! i < t" using r by (intro exI[of _ "a + j"]) simp
next
  assume "\<exists>i. a \<le> i \<and> i < b \<and> rs ! i < t"
  then obtain i where i: "a \<le> i" "i < b" "rs ! i < t" by blast
  with assms have len: "i - a < length (drop a (take b rs))" by simp
  from i assms have "drop a (take b rs) ! (i - a) = rs ! i" by simp
  with len i(3) show "\<exists>r \<in> set (drop a (take b rs)). r < t"
    by (metis nth_mem)
qed

text \<open>The cuts of four readings.\<close>

lemma cuts4:
  "nat \<lfloor>real (4::nat) * arctan 4 / pi\<rfloor> = 1"
  "nat \<lfloor>real (4::nat) * (pi - arctan 4) / pi\<rfloor> = 2"
proof -
  define t where "t = arctan 4 / pi"
  have t: "1 / 4 < t" "t < 1 / 2" using theta_fraction by (simp_all add: t_def theta_arctan)
  have p: "real (4::nat) * arctan 4 / pi = 4 * t" by (simp add: t_def)
  have q: "real (4::nat) * (pi - arctan 4) / pi = 4 - 4 * t"
    using pi_gt_zero by (simp add: t_def field_simps)
  have "\<lfloor>4 * t\<rfloor> = 1" using t by (simp add: floor_eq_iff)
  then show "nat \<lfloor>real (4::nat) * arctan 4 / pi\<rfloor> = 1" unfolding p by simp
  have "\<lfloor>4 - 4 * t\<rfloor> = 2" using t by (simp add: floor_eq_iff)
  then show "nat \<lfloor>real (4::nat) * (pi - arctan 4) / pi\<rfloor> = 2" unfolding q by simp
qed

lemma length4: "length [r0, r1, r2, r3] = 4"
  by simp

lemma preprocess_scan_front: "preprocess scan_front = [5, 1 / 2, 5, 5]"
  by (simp add: preprocess_def scan_front_def Let_def py_int_def py_slice_def)

lemma preprocess_scan_left: "preprocess scan_left = [5, 5, 1 / 2, 5]"
  by (simp add: preprocess_def scan_left_def Let_def py_int_def py_slice_def)

lemma preprocess_scan_side: "preprocess scan_side = [5, 5, 5, 1 / 10]"
  by (simp add: preprocess_def scan_side_def Let_def py_int_def py_slice_def)

lemma preprocess_scan_flat: "preprocess scan_flat = [6, 7, 8, 9, 10, 11, 12, 13, 14, 15]"
  by (simp add: preprocess_def scan_flat_def Let_def py_int_def py_slice_def)

text \<open>The kept readings are valid readings of the scan.\<close>

lemma set_py_slice: "set (py_slice a b xs) \<subseteq> set xs"
  by (auto simp: py_slice_def Let_def dest!: in_set_dropD in_set_takeD)

lemma preprocess_valid:
  "r \<in> set (preprocess message) \<Longrightarrow>
     r \<in> set (ranges message) \<and> range_min message \<le> r \<and> r < range_max message"
  using set_py_slice[of _ _ "filter (\<lambda>r. range_min message \<le> r \<and> r < range_max message) (ranges message)"]
  by (auto simp: preprocess_def Let_def)

lemma sectors_subset:
  "set (front_ranges rs) \<subseteq> set rs"
  "set (side_ranges_left rs) \<subseteq> set rs"
  "set (side_ranges_right rs) \<subseteq> set rs"
  by (simp_all add: front_ranges_def side_ranges_left_def side_ranges_right_def Let_def
        set_py_slice)

text \<open>The obstacle flag, by the sectors.\<close>

lemma obstacle_by_sectors:
  "obstacle_detected (lidar_callback lib self message) \<longleftrightarrow>
     (\<exists>r \<in> set (front_ranges (preprocess message)). r < 1) \<or>
     (\<exists>r \<in> set (side_ranges_left (preprocess message)). r < 0.125) \<or>
     (\<exists>r \<in> set (side_ranges_right (preprocess message)). r < 0.125)"
  by (auto simp: lidar_callback_def Let_def below_threshold_iff side_loop_iff constants)

subsection \<open>The points of a scan\<close>

lemma length_cart [simp]:
  "length (cart_x message rs) = length rs" "length (cart_y message rs) = length rs"
  by (simp_all add: cart_x_def cart_y_def angles_def)

lemma cart_nth:
  assumes "i < length rs"
  shows "cart_x message rs ! i = rs ! i * cos (real i * angle_increment message)"
    and "cart_y message rs ! i = rs ! i * sin (real i * angle_increment message)"
  using assms by (simp_all add: cart_x_def cart_y_def angles_def)

lemma float_value_r_squared:
  "float_value (r_squared lib message rs) =
     r2_score (cart_y message rs) (predict (fit (cart_x message rs) (cart_y message rs)) (cart_x message rs))"
  by (cases lib) (simp_all add: r_squared_def score_def Let_def)

lemma r_squared_determination:
  assumes "0 < length rs"
  shows "float_value (r_squared lib message rs) =
           determination (length rs)
             (\<lambda>i. rs ! i * cos (real i * angle_increment message))
             (\<lambda>i. rs ! i * sin (real i * angle_increment message))"
  unfolding float_value_r_squared
  by (rule r2_score_determination[OF assms]) (simp_all add: cart_nth)

subsection \<open>The claims on the range scan handler\<close>

text \<open>
  C5. When fewer than 10 readings are kept, the handler sets \<open>ramp_detected\<close> to the
  Python \<open>False\<close>, whatever the readings, the members before and the release of the
  library.
\<close>

theorem ramp_needs_ten_points:
  "length (preprocess message) < 10 \<Longrightarrow>
     ramp_detected (lidar_callback lib self message) = PyBool False \<and>
     \<not> truth (ramp_detected (lidar_callback lib self message))"
  by (simp add: lidar_callback_def Let_def constants)

theorem ramp_needs_ten_points_witness:
  "length (preprocess scan_front) < 10 \<and>
   ramp_detected (lidar_callback Returns_float64 (init\<lparr>ramp_detected := NumpyBool True\<rparr>) scan_front)
     = PyBool False"
  using ramp_needs_ten_points[of scan_front Returns_float64 "init\<lparr>ramp_detected := NumpyBool True\<rparr>"]
  by (simp add: preprocess_scan_front)

text \<open>
  C6. With \<open>n\<close> kept readings \<open>rs\<close>, let \<open>c1\<close> be \<open>n * atan 4 / pi\<close> and \<open>c2\<close> be
  \<open>n * (pi - atan 4) / pi\<close>, both rounded down. The right sector is the readings before
  \<open>c1\<close>, the front sector those from \<open>c1\<close> to before \<open>c2\<close>, the left sector those from
  \<open>c2\<close> on. After the handler, \<open>obstacle_detected\<close> is true exactly when a front reading
  is below 1.0 or a left or right reading is below 0.125; so it is false when every
  reading is at or above the threshold of its sector.
\<close>

theorem obstacle_detected_iff:
  fixes message :: LaserScan and lib :: sklearn and self :: LineFollower
  defines "rs \<equiv> preprocess message"
  defines "n \<equiv> length rs"
  defines "c1 \<equiv> nat \<lfloor>real n * arctan 4 / pi\<rfloor>"
  defines "c2 \<equiv> nat \<lfloor>real n * (pi - arctan 4) / pi\<rfloor>"
  shows "c1 \<le> c2 \<and> c2 \<le> n \<and>
         side_ranges_right rs = take c1 rs \<and>
         front_ranges rs = drop c1 (take c2 rs) \<and>
         side_ranges_left rs = drop c2 rs \<and>
         (obstacle_detected (lidar_callback lib self message) \<longleftrightarrow>
            (\<exists>i. c1 \<le> i \<and> i < c2 \<and> rs ! i < 1.0) \<or>
            (\<exists>i. c2 \<le> i \<and> i < n \<and> rs ! i < 0.125) \<or>
            (\<exists>i. i < c1 \<and> rs ! i < 0.125)) \<and>
         ((\<forall>i. c1 \<le> i \<and> i < c2 \<longrightarrow> 1.0 \<le> rs ! i) \<and>
          (\<forall>i. i < n \<and> (i < c1 \<or> c2 \<le> i) \<longrightarrow> 0.125 \<le> rs ! i)
            \<longrightarrow> \<not> obstacle_detected (lidar_callback lib self message))"
proof -
  note c = cut_indices[of n, folded c1_def c2_def]
  note s = sectors_explicit[of rs, folded n_def, folded c1_def c2_def]
  have c1n: "c1 \<le> length rs" using c(3,4) by (simp add: n_def)
  have front: "(\<exists>r \<in> set (front_ranges rs). r < 1) \<longleftrightarrow> (\<exists>i. c1 \<le> i \<and> i < c2 \<and> rs ! i < 1)"
    unfolding s using c(4) by (intro slice_below) (simp add: n_def)
  have "(\<exists>r \<in> set (drop c2 (take n rs)). r < 0.125) \<longleftrightarrow> (\<exists>i. c2 \<le> i \<and> i < n \<and> rs ! i < 0.125)"
    by (intro slice_below) (simp add: n_def)
  then have left: "(\<exists>r \<in> set (side_ranges_left rs). r < 0.125) \<longleftrightarrow>
                     (\<exists>i. c2 \<le> i \<and> i < n \<and> rs ! i < 0.125)"
    by (simp add: s n_def)
  have "(\<exists>r \<in> set (drop 0 (take c1 rs)). r < 0.125) \<longleftrightarrow> (\<exists>i. 0 \<le> i \<and> i < c1 \<and> rs ! i < 0.125)"
    using c1n by (intro slice_below)
  then have right: "(\<exists>r \<in> set (side_ranges_right rs). r < 0.125) \<longleftrightarrow>
                      (\<exists>i. i < c1 \<and> rs ! i < 0.125)"
    by (simp add: s)
  have iff: "obstacle_detected (lidar_callback lib self message) \<longleftrightarrow>
               (\<exists>i. c1 \<le> i \<and> i < c2 \<and> rs ! i < 1) \<or>
               (\<exists>i. c2 \<le> i \<and> i < n \<and> rs ! i < 0.125) \<or>
               (\<exists>i. i < c1 \<and> rs ! i < 0.125)"
    unfolding obstacle_by_sectors rs_def[symmetric] front left right ..
  have "\<not> obstacle_detected (lidar_callback lib self message)"
    if "\<forall>i. c1 \<le> i \<and> i < c2 \<longrightarrow> 1 \<le> rs ! i"
      and "\<forall>i. i < n \<and> (i < c1 \<or> c2 \<le> i) \<longrightarrow> 0.125 \<le> rs ! i"
    unfolding iff using that c(3,4) by (fastforce simp: not_less[symmetric])
  with iff c(3,4) s show ?thesis by simp
qed

theorem obstacle_detected_iff_witness:
  "obstacle_detected (lidar_callback Returns_float init scan_front) \<and>
   \<not> obstacle_detected (lidar_callback Returns_float (init\<lparr>obstacle_detected := True\<rparr>) scan_left) \<and>
   obstacle_detected (lidar_callback Returns_float init scan_side)"
proof -
  note front = obstacle_detected_iff[of scan_front Returns_float init,
      unfolded preprocess_scan_front, unfolded length4, unfolded cuts4]
  have "(1::nat) \<le> 1 \<and> (1::nat) < 2 \<and> [5, 1 / 2, 5, 5 :: real] ! 1 < 1.0" by simp
  then have "\<exists>i. (1::nat) \<le> i \<and> i < 2 \<and> [5, 1 / 2, 5, 5 :: real] ! i < 1.0" by (rule exI)
  with front have 1: "obstacle_detected (lidar_callback Returns_float init scan_front)"
    by blast
  note left = obstacle_detected_iff[of scan_left Returns_float "init\<lparr>obstacle_detected := True\<rparr>",
      unfolded preprocess_scan_left, unfolded length4, unfolded cuts4]
  have f: "\<forall>i. (1::nat) \<le> i \<and> i < 2 \<longrightarrow> 1.0 \<le> [5, 5, 1 / 2, 5 :: real] ! i"
  proof (intro allI impI)
    fix i :: nat assume "1 \<le> i \<and> i < 2"
    then have "i = 1" by simp
    then show "1.0 \<le> [5, 5, 1 / 2, 5 :: real] ! i" by simp
  qed
  have "\<forall>r \<in> set [5, 5, 1 / 2, 5 :: real]. 0.125 \<le> r" by simp
  then have s: "\<forall>i. i < (4::nat) \<and> (i < 1 \<or> 2 \<le> i) \<longrightarrow> 0.125 \<le> [5, 5, 1 / 2, 5 :: real] ! i"
    by (metis length4 nth_mem)
  from left f s
  have 2: "\<not> obstacle_detected (lidar_callback Returns_float (init\<lparr>obstacle_detected := True\<rparr>) scan_left)"
    by blast
  note side = obstacle_detected_iff[of scan_side Returns_float init,
      unfolded preprocess_scan_side, unfolded length4, unfolded cuts4]
  have "(2::nat) \<le> 3 \<and> (3::nat) < 4 \<and> [5, 5, 5, 1 / 10 :: real] ! 3 < 0.125" by simp
  then have "\<exists>i. (2::nat) \<le> i \<and> i < 4 \<and> [5, 5, 5, 1 / 10 :: real] ! i < 0.125" by (rule exI)
  with side have 3: "obstacle_detected (lidar_callback Returns_float init scan_side)"
    by blast
  from 1 2 3 show ?thesis by blast
qed

text \<open>
  C10. The two flags after the handler depend on the scan only: from any two states of
  the members, the same scan gives the same \<open>ramp_detected\<close> and the same
  \<open>obstacle_detected\<close>.
\<close>

theorem lidar_flags_from_scan:
  "ramp_detected (lidar_callback lib self1 message) =
     ramp_detected (lidar_callback lib self2 message) \<and>
   obstacle_detected (lidar_callback lib self1 message) =
     obstacle_detected (lidar_callback lib self2 message)"
  by (simp add: lidar_callback_def Let_def)

subsection \<open>Three scans\<close>

text \<open>The scan at the angle 0: the points lie on the line \<open>y = 0\<close>, and nothing is near.\<close>

lemma r_squared_numpy:
  "r_squared Returns_float64 message rs =
     NumpyFloat64 (float_value (r_squared Returns_float64 message rs))"
  by (simp add: r_squared_def score_def Let_def)

lemma lidar_scan_flat:
  "lidar_callback Returns_float64 init scan_flat = init\<lparr>ramp_detected := NumpyBool True\<rparr>"
proof -
  let ?rs = "preprocess scan_flat"
  have len: "length ?rs = 10" by (simp add: preprocess_scan_flat)
  have inc: "angle_increment scan_flat = 0" by (simp add: scan_flat_def)
  have "determination (length ?rs)
          (\<lambda>i. ?rs ! i * cos (real i * angle_increment scan_flat))
          (\<lambda>i. ?rs ! i * sin (real i * angle_increment scan_flat)) = 1"
    by (rule determination_on_line[of _ _ 0 _ 0]) (simp_all add: len inc)
  then have "float_value (r_squared Returns_float64 scan_flat ?rs) = 1"
    by (simp add: r_squared_determination len)
  then have ramp: "r_squared Returns_float64 scan_flat ?rs = NumpyFloat64 1"
    using r_squared_numpy[of scan_flat ?rs] by simp
  have all: "\<forall>r \<in> set ?rs. 1 \<le> r" by (simp add: preprocess_scan_flat)
  have f: "\<not> below_threshold THRESHOLD_OBSTACLE_VERTICAL (front_ranges ?rs)"
    using all sectors_subset(1)[of ?rs] by (fastforce simp: below_threshold_iff constants)
  have l: "\<not> below_threshold THRESHOLD_OBSTACLE_HORIZONTAL (rev (side_ranges_left ?rs))"
    using all sectors_subset(2)[of ?rs] by (fastforce simp: below_threshold_iff constants)
  have r: "\<not> below_threshold THRESHOLD_OBSTACLE_HORIZONTAL (side_ranges_right ?rs)"
    using all sectors_subset(3)[of ?rs] by (fastforce simp: below_threshold_iff constants)
  show ?thesis
    using f l r by (simp add: lidar_callback_def Let_def len ramp init_def constants)
qed

text \<open>The scan on quarter turns: the fit through its ten points is poor.\<close>

lemma preprocess_scan_scatter: "preprocess scan_scatter = [2, 2, 2, 2, 2, 2, 2, 2, 2, 2]"
  by (simp add: preprocess_def scan_scatter_def Let_def py_int_def py_slice_def eval_nat_numeral)

lemma quarter_turns:
  "cos (real (Suc n) * pi / 2) = - sin (real n * pi / 2)"
  "sin (real (Suc n) * pi / 2) = cos (real n * pi / 2)"
proof -
  have step: "real (Suc n) * pi / 2 = real n * pi / 2 + pi / 2"
    by (simp add: algebra_simps add_divide_distrib)
  show "cos (real (Suc n) * pi / 2) = - sin (real n * pi / 2)"
    unfolding step by (simp add: cos_add)
  show "sin (real (Suc n) * pi / 2) = cos (real n * pi / 2)"
    unfolding step by (simp add: sin_add)
qed

lemma cart_scatter:
  "cart_x scan_scatter (preprocess scan_scatter) = [2, 0, - 2, 0, 2, 0, - 2, 0, 2, 0]"
  "cart_y scan_scatter (preprocess scan_scatter) = [0, 2, 0, - 2, 0, 2, 0, - 2, 0, 2]"
proof -
  have inc: "angle_increment scan_scatter = pi / 2" by (simp add: scan_scatter_def)
  show "cart_x scan_scatter (preprocess scan_scatter) = [2, 0, - 2, 0, 2, 0, - 2, 0, 2, 0]"
    unfolding preprocess_scan_scatter cart_x_def angles_def inc
    by (simp add: quarter_turns del: of_nat_Suc)
  show "cart_y scan_scatter (preprocess scan_scatter) = [0, 2, 0, - 2, 0, 2, 0, - 2, 0, 2]"
    unfolding preprocess_scan_scatter cart_y_def angles_def inc
    by (simp add: quarter_turns del: of_nat_Suc)
qed

lemma r_squared_scatter:
  "float_value (r_squared lib scan_scatter (preprocess scan_scatter)) = 1 / 2401"
  unfolding float_value_r_squared cart_scatter
  by (simp add: fit_def predict_def r2_score_def mean_def Let_def)

text \<open>The scan of the wall: the rays, the readings, and the points on the line.\<close>

lemma sqrt_1681: "sqrt (1 + (9 / 40)\<^sup>2) = 41 / 40"
  by (rule real_sqrt_unique) (simp_all add: power2_eq_square)

lemma ray_angle:
  "cos (arctan (9 / 40)) = 40 / 41" "sin (arctan (9 / 40)) = 9 / 41"
  by (simp_all add: cos_arctan sin_arctan sqrt_1681)

lemma rot_angle:
  "cos (real i * arctan (9 / 40)) = fst (rot i) \<and> sin (real i * arctan (9 / 40)) = snd (rot i)"
proof (induction i)
  case 0
  show ?case by simp
next
  case (Suc i)
  have step: "real (Suc i) * arctan (9 / 40) = real i * arctan (9 / 40) + arctan (9 / 40)"
    by (simp add: algebra_simps)
  show ?case unfolding step using Suc
    by (simp add: cos_add sin_add ray_angle split: prod.split)
qed

lemma less_10_cases:
  "i < (10::nat) \<Longrightarrow>
     i = 0 \<or> i = Suc 0 \<or> i = Suc (Suc 0) \<or> i = Suc (Suc (Suc 0)) \<or>
     i = Suc (Suc (Suc (Suc 0))) \<or> i = Suc (Suc (Suc (Suc (Suc 0)))) \<or>
     i = Suc (Suc (Suc (Suc (Suc (Suc 0))))) \<or>
     i = Suc (Suc (Suc (Suc (Suc (Suc (Suc 0)))))) \<or>
     i = Suc (Suc (Suc (Suc (Suc (Suc (Suc (Suc 0))))))) \<or>
     i = Suc (Suc (Suc (Suc (Suc (Suc (Suc (Suc (Suc 0))))))))"
  by arith

lemma wall_valid:
  assumes "i < 10"
  shows "1 / 10 \<le> wall i \<and> wall i < 10"
  using less_10_cases[OF assms] by (elim disjE) (simp_all add: wall_def)

lemma wall_ray:
  assumes "i < 10"
  shows "0 < fst (rot i) + snd (rot i)"
proof -
  have "0 < wall i" using wall_valid[OF assms] by linarith
  then show ?thesis by (simp add: wall_def)
qed

lemma preprocess_scan_wall: "preprocess scan_wall = map wall [0..<10]"
proof -
  let ?P = "\<lambda>r::real. 1 / 10 \<le> r \<and> r < 10"
  have "\<forall>r \<in> set (replicate 5 1 @ map wall [0..<10] @ replicate 5 1). ?P r"
    using wall_valid by auto
  then have "filter ?P (replicate 5 1 @ map wall [0..<10] @ replicate 5 1) =
               replicate 5 1 @ map wall [0..<10] @ replicate 5 1"
    by (simp only: filter_True)
  then show ?thesis
    by (simp add: preprocess_def scan_wall_def Let_def py_int_def py_slice_def)
qed

lemma wall_on_line:
  assumes "i < 10"
  shows "wall i * sin (real i * arctan (9 / 40)) = - 1 * (wall i * cos (real i * arctan (9 / 40))) + 1"
proof -
  have "wall i * (fst (rot i) + snd (rot i)) = 1"
    using wall_ray[OF assms] by (simp add: wall_def)
  then show ?thesis by (simp add: rot_angle algebra_simps)
qed

subsection \<open>The ramp flag\<close>

text \<open>
  C9. Let the \<open>n\<close> kept readings be at least 10, and let reading \<open>i\<close> give the point
  \<open>X i = r * cos (i * angle_increment)\<close>, \<open>Y i = r * sin (i * angle_increment)\<close>. The line
  \<open>y = a * x + b\<close> with the slope \<open>a = Sxy / Sxx\<close> (0 when all \<open>X i\<close> are equal) and the
  intercept \<open>b = mean Y - a * mean X\<close> is a least-squares line: no line has a smaller sum
  \<open>u\<close> of squared residuals. With \<open>v\<close> the total sum of squares of the \<open>Y i\<close>, the
  handler computes \<open>R\<^sup>2 = 1 - u / v\<close> (1 when \<open>v = 0\<close>), and \<open>ramp_detected\<close> is true exactly
  when \<open>R\<^sup>2 > 0.9\<close>. When the points lie on a line \<open>y = a' * x + b'\<close>, \<open>R\<^sup>2\<close> is 1 and
  \<open>ramp_detected\<close> is true; when \<open>R\<^sup>2 < 0.9\<close>, it is false.
\<close>

theorem ramp_is_good_fit:
  fixes message :: LaserScan and lib :: sklearn and self :: LineFollower
  defines "n \<equiv> length (preprocess message)"
  defines "X \<equiv> \<lambda>i. preprocess message ! i * cos (real i * angle_increment message)"
  defines "Y \<equiv> \<lambda>i. preprocess message ! i * sin (real i * angle_increment message)"
  defines "mx \<equiv> (\<Sum>i<n. X i) / real n"
  defines "my \<equiv> (\<Sum>i<n. Y i) / real n"
  defines "sxx \<equiv> (\<Sum>i<n. (X i - mx)\<^sup>2)"
  defines "sxy \<equiv> (\<Sum>i<n. (X i - mx) * (Y i - my))"
  defines "a \<equiv> (if sxx = 0 then 0 else sxy / sxx)"
  defines "b \<equiv> my - a * mx"
  defines "u \<equiv> (\<Sum>i<n. (Y i - (a * X i + b))\<^sup>2)"
  defines "v \<equiv> (\<Sum>i<n. (Y i - my)\<^sup>2)"
  defines "r2 \<equiv> (if v = 0 then 1 else 1 - u / v)"
  assumes "10 \<le> n"
  shows "(\<forall>a' b'. u \<le> (\<Sum>i<n. (Y i - (a' * X i + b'))\<^sup>2)) \<and>
         float_value (r_squared lib message (preprocess message)) = r2 \<and>
         (truth (ramp_detected (lidar_callback lib self message)) \<longleftrightarrow> r2 > 0.9) \<and>
         ((\<exists>a' b'. \<forall>i<n. Y i = a' * X i + b')
            \<longrightarrow> r2 = 1 \<and> truth (ramp_detected (lidar_callback lib self message))) \<and>
         (r2 < 0.9 \<longrightarrow> \<not> truth (ramp_detected (lidar_callback lib self message)))"
proof -
  have n: "0 < n" using assms(13) by simp
  have a: "a = ols_slope n X Y"
    by (simp add: a_def sxx_def sxy_def mx_def my_def ols_slope_def idx_mean_def Let_def)
  have b: "b = ols_intercept n X Y"
    by (simp add: b_def a mx_def my_def ols_intercept_def idx_mean_def)
  have u: "u = sse n X Y (ols_slope n X Y) (ols_intercept n X Y)"
    by (simp add: u_def a b sse_def)
  have v: "v = sst n Y"
    by (simp add: v_def my_def sst_def idx_mean_def)
  have r2: "r2 = determination n X Y"
    by (simp add: r2_def u v determination_def Let_def)
  have least: "\<forall>a' b'. u \<le> (\<Sum>i<n. (Y i - (a' * X i + b'))\<^sup>2)"
    using ols_least[OF n, of X Y] by (simp add: u sse_def)
  have val: "float_value (r_squared lib message (preprocess message)) = r2"
    unfolding r2 using n r_squared_determination[of "preprocess message" lib message]
    by (simp add: n_def X_def Y_def)
  have ramp: "truth (ramp_detected (lidar_callback lib self message)) \<longleftrightarrow> r2 > 0.9"
    using assms(13) by (simp add: lidar_callback_def Let_def constants truth_py_gt val n_def)
  have line: "r2 = 1" if "\<exists>a' b'. \<forall>i<n. Y i = a' * X i + b'"
    using that determination_on_line[OF n, of Y _ X] by (auto simp: r2)
  from least val ramp line show ?thesis by auto
qed

theorem ramp_is_good_fit_witness:
  "10 \<le> length (preprocess scan_wall) \<and>
   truth (ramp_detected (lidar_callback Returns_float init scan_wall)) \<and>
   ramp_detected (lidar_callback Returns_float64 init scan_wall) = NumpyBool True \<and>
   10 \<le> length (preprocess scan_scatter) \<and>
   \<not> truth (ramp_detected
       (lidar_callback Returns_float (init\<lparr>ramp_detected := PyBool True\<rparr>) scan_scatter))"
proof -
  have len: "10 \<le> length (preprocess scan_wall)" by (simp add: preprocess_scan_wall)
  have inc: "angle_increment scan_wall = arctan (9 / 40)" by (simp add: scan_wall_def)
  have line: "\<exists>a' b'. \<forall>i<length (preprocess scan_wall).
      preprocess scan_wall ! i * sin (real i * angle_increment scan_wall) =
        a' * (preprocess scan_wall ! i * cos (real i * angle_increment scan_wall)) + b'"
  proof (intro exI allI impI)
    fix i assume "i < length (preprocess scan_wall)"
    then have i: "i < 10" by (simp add: preprocess_scan_wall)
    then have "preprocess scan_wall ! i = wall i" by (simp add: preprocess_scan_wall)
    then show "preprocess scan_wall ! i * sin (real i * angle_increment scan_wall) =
        - 1 * (preprocess scan_wall ! i * cos (real i * angle_increment scan_wall)) + 1"
      using wall_on_line[OF i] by (simp add: inc)
  qed
  from ramp_is_good_fit[OF len, of Returns_float init] line
  have 1: "truth (ramp_detected (lidar_callback Returns_float init scan_wall))" by blast
  from ramp_is_good_fit[OF len, of Returns_float64 init] line
  have "truth (ramp_detected (lidar_callback Returns_float64 init scan_wall))" by blast
  moreover have "ramp_detected (lidar_callback Returns_float64 init scan_wall) =
      NumpyBool (truth (ramp_detected (lidar_callback Returns_float64 init scan_wall)))"
    using len by (simp add: lidar_callback_def Let_def constants r_squared_def score_def)
  ultimately have 2: "ramp_detected (lidar_callback Returns_float64 init scan_wall) = NumpyBool True"
    by simp
  have len': "10 \<le> length (preprocess scan_scatter)" by (simp add: preprocess_scan_scatter)
  have "truth (ramp_detected
          (lidar_callback Returns_float (init\<lparr>ramp_detected := PyBool True\<rparr>) scan_scatter))
        \<longleftrightarrow> float_value (r_squared Returns_float scan_scatter (preprocess scan_scatter)) > 0.9"
    using ramp_is_good_fit[OF len', of Returns_float "init\<lparr>ramp_detected := PyBool True\<rparr>"]
    by simp
  then have 3: "\<not> truth (ramp_detected
       (lidar_callback Returns_float (init\<lparr>ramp_detected := PyBool True\<rparr>) scan_scatter))"
    by (simp add: r_squared_scatter)
  from len 1 2 len' 3 show ?thesis by blast
qed

subsection \<open>The ramp flag between the two handlers\<close>

text \<open>
  C3. The claim: the three tests run in the order stop sign, ramp, obstacle, and each
  assigns the speed when its flag is true; so with all three flags true the published
  speed is 0.25. The last part holds (\<open>obstacle_override_last\<close>): the obstacle test is the
  last one. The ramp test does not assign the speed when the flag is true as a
  \<open>numpy.bool_\<close>, which is what line 227 stores with a library whose \<open>score\<close> returns a
  \<open>numpy.float64\<close>: after the scan at the angle 0, whose points lie on a line, the flag
  is true, and the next message without an edge vector is answered with the full speed
  1.0, not 0.5.
\<close>

theorem ramp_override_skipped:
  "lidar_callback Returns_float64 init scan_flat = init\<lparr>ramp_detected := NumpyBool True\<rparr> \<and>
   truth (ramp_detected (init\<lparr>ramp_detected := NumpyBool True\<rparr>)) \<and>
   edge_vectors_callback (init\<lparr>ramp_detected := NumpyBool True\<rparr>) no_line =
     Inr (init\<lparr>ramp_detected := NumpyBool True\<rparr>, rover_move_manual_mode 1.0 0) \<and>
   joy_speed (rover_move_manual_mode 1.0 0) = 1.0"
proof -
  have "edge_vectors_callback (init\<lparr>ramp_detected := NumpyBool True\<rparr>) no_line =
          Inr (init\<lparr>ramp_detected := NumpyBool True\<rparr>, rover_move_manual_mode 1.0 0)"
    by (simp add: edge_vectors_callback_def lane_deviation_def no_line_def init_def Let_def
          constants speed_override_order)
  with lidar_scan_flat show ?thesis by simp
qed

end
